theory Spec2Isabelle
  imports Main "HOL-Library.Word" "HOL-Library.Stream"
begin

unbundle bit_operations_syntax

section \<open>Bytes, exceptions and the bus\<close>

text \<open>
  A Python \<open>bytes\<close> object is a list of 8-bit words. Python integers are \<open>int\<close>.
\<close>

type_synonym byte = "8 word"
type_synonym bytes = "byte list"

text \<open>
  The exceptions the driver can raise or let through: \<open>OSError\<close> comes from the I2C
  transport (ENODEV), \<open>ValueError\<close> from the driver's own \<open>raise\<close> statements and from
  \<open>bytes([...])\<close> on a value outside 0..255, \<open>AssertionError\<close> from \<open>assert\<close>, and
  \<open>NameError\<close> from reading a local variable that was never assigned.
\<close>

datatype msg = Text string | Raw bytes

datatype exc = OSError | ValueError msg | AssertionError | NameError

text \<open>
  The bus as the driver sees it. \<open>trace\<close> lists every call the driver has made on the
  transport and on the clock, oldest first, whether or not the call succeeded. \<open>rx\<close>
  holds what the successive \<open>readfrom\<close> calls will deliver (\<open>None\<close>: the call raises
  \<open>OSError\<close>), \<open>tx\<close> whether the successive \<open>writeto\<close> calls are accepted
  (\<open>False\<close>: the call raises \<open>OSError\<close>).
\<close>

datatype event = WriteTo nat bytes | ReadFrom nat int | SleepMs nat

record bus =
  trace :: "event list"
  rx :: "bytes option stream"
  tx :: "bool stream"

type_synonym 'a io = "bus \<Rightarrow> (exc + 'a) \<times> bus"

definition ret :: "'a \<Rightarrow> 'a io" where
  "ret x b = (Inr x, b)"

definition throw :: "exc \<Rightarrow> 'a io" where
  "throw e b = (Inl e, b)"

definition lift :: "exc + 'a \<Rightarrow> 'a io" where
  "lift r b = (r, b)"

definition bindE :: "'a io \<Rightarrow> ('a \<Rightarrow> 'b io) \<Rightarrow> 'b io" where
  "bindE m f b = (case m b of (Inl e, b') \<Rightarrow> (Inl e, b') | (Inr x, b') \<Rightarrow> f x b')"

definition py_assert :: "bool \<Rightarrow> unit io" where
  "py_assert c = (if c then ret () else throw AssertionError)"

definition i2c_writeto :: "nat \<Rightarrow> bytes \<Rightarrow> unit io" where
  "i2c_writeto a buf b =
     (let b' = b\<lparr>trace := trace b @ [WriteTo a buf], tx := stl (tx b)\<rparr>
      in if shd (tx b) then (Inr (), b') else (Inl OSError, b'))"

definition i2c_readfrom :: "nat \<Rightarrow> int \<Rightarrow> bytes io" where
  "i2c_readfrom a n b =
     (let b' = b\<lparr>trace := trace b @ [ReadFrom a n], rx := stl (rx b)\<rparr>
      in case shd (rx b) of None \<Rightarrow> (Inl OSError, b') | Some d \<Rightarrow> (Inr d, b'))"

definition sleep_ms :: "nat \<Rightarrow> unit io" where
  "sleep_ms t b = (Inr (), b\<lparr>trace := trace b @ [SleepMs t]\<rparr>)"

text \<open>\<open>bytes([x, ...])\<close>: every element must be in 0..255.\<close>

definition py_bytes :: "int list \<Rightarrow> exc + bytes" where
  "py_bytes xs =
     (if list_all (\<lambda>x. 0 \<le> x \<and> x \<le> 255) xs then Inr (map word_of_int xs)
      else Inl (ValueError (Text ''bytes value out of range'')))"

text \<open>
  \<open>struct.pack('>I', v)\<close>: four bytes, most significant first. MicroPython's
  \<open>struct\<close> does not range-check the value and keeps its low 32 bits.
\<close>

definition pack_be32 :: "int \<Rightarrow> bytes" where
  "pack_be32 v =
     [word_of_int (v div 2 ^ 24 mod 256), word_of_int (v div 2 ^ 16 mod 256),
      word_of_int (v div 2 ^ 8 mod 256), word_of_int (v mod 256)]"

section \<open>The driver (shared/gpu.py)\<close>

definition BL_ADDR :: nat where
  "BL_ADDR = 0x64"

definition BL_ACK :: bytes where
  "BL_ACK = [0x79]"

definition BL_NACK :: bytes where
  "BL_NACK = [0x1f]"

definition BL_BUSY :: bytes where
  "BL_BUSY = [0x76]"

definition FLASH_START :: int where
  "FLASH_START = 0x08000000"

text \<open>
  \<open>add_xor_check\<close>: \<open>rv\<close> is a Python integer, folded over the bytes of \<open>lst\<close> in
  order, then appended through \<open>bytes([rv])\<close>.
\<close>

definition add_xor_check :: "bytes \<Rightarrow> exc + bytes" where
  "add_xor_check lst =
     (let rv = fold (\<lambda>b rv. rv XOR uint b) lst (0 :: int)
      in case py_bytes [rv] of Inl e \<Rightarrow> Inl e | Inr t \<Rightarrow> Inr (lst @ t))"

text \<open>An argument that the code tests with \<open>isinstance(x, int)\<close>.\<close>

datatype arg = IntArg int | BytesArg bytes

definition send_cmd :: "int \<Rightarrow> unit io" where
  "send_cmd cmd =
     bindE (lift (py_bytes [cmd, 0xff XOR cmd])) (\<lambda>frame.
     bindE (i2c_writeto BL_ADDR frame) (\<lambda>_.
     bindE (i2c_readfrom BL_ADDR 1) (\<lambda>resp.
     if resp \<noteq> BL_ACK then throw (ValueError (Text ''unknown command'')) else ret ())))"

definition bl_cmd_read :: "int \<Rightarrow> int \<Rightarrow> arg option \<Rightarrow> arg option \<Rightarrow> bool \<Rightarrow> bytes option io" where
  "bl_cmd_read cmd expect_len addr arg2 no_final =
     bindE (send_cmd cmd) (\<lambda>_.
     bindE (case addr of
              None \<Rightarrow> ret ()
            | Some a \<Rightarrow>
                bindE (case a of
                         IntArg n \<Rightarrow> lift (add_xor_check (pack_be32 n))
                       | BytesArg bs \<Rightarrow> ret bs) (\<lambda>qq.
                bindE (i2c_writeto BL_ADDR qq) (\<lambda>_.
                bindE (i2c_readfrom BL_ADDR 1) (\<lambda>resp.
                if resp \<noteq> BL_ACK then throw (ValueError (Text ''bad addr'')) else ret ())))) (\<lambda>_.
     bindE (case arg2 of
              None \<Rightarrow> ret ()
            | Some a \<Rightarrow>
                bindE (case a of
                         IntArg v \<Rightarrow>
                           bindE (lift (py_bytes [v, 0xff XOR v])) (i2c_writeto BL_ADDR)
                       | BytesArg bs \<Rightarrow>
                           bindE (lift (add_xor_check bs)) (i2c_writeto BL_ADDR)) (\<lambda>_.
                bindE (i2c_readfrom BL_ADDR 1) (\<lambda>resp.
                if resp \<noteq> BL_ACK then throw (ValueError (Text ''bad arg2'')) else ret ()))) (\<lambda>_.
     if expect_len = 0 then ret None
     else
       bindE (i2c_readfrom BL_ADDR expect_len) (\<lambda>rv.
       bindE (if \<not> no_final then
                bindE (i2c_readfrom BL_ADDR 1) (\<lambda>resp.
                if resp \<noteq> BL_ACK then throw (ValueError (Raw resp)) else ret ())
              else ret ()) (\<lambda>_.
       ret (Some rv))))))"

text \<open>
  The part of \<open>bl_cmd_read\<close> that follows the address block (gpu.py, lines 61 to 87):
  the second argument with its acknowledgement, then the payload and the final
  acknowledgement. It is what \<open>bl_cmd_read\<close> goes on with once the address is
  acknowledged.
\<close>

definition bl_cmd_read_rest :: "int \<Rightarrow> arg option \<Rightarrow> bool \<Rightarrow> bytes option io" where
  "bl_cmd_read_rest expect_len arg2 no_final =
     bindE (case arg2 of
              None \<Rightarrow> ret ()
            | Some a \<Rightarrow>
                bindE (case a of
                         IntArg v \<Rightarrow>
                           bindE (lift (py_bytes [v, 0xff XOR v])) (i2c_writeto BL_ADDR)
                       | BytesArg bs \<Rightarrow>
                           bindE (lift (add_xor_check bs)) (i2c_writeto BL_ADDR)) (\<lambda>_.
                bindE (i2c_readfrom BL_ADDR 1) (\<lambda>resp.
                if resp \<noteq> BL_ACK then throw (ValueError (Text ''bad arg2'')) else ret ()))) (\<lambda>_.
     if expect_len = 0 then ret None
     else
       bindE (i2c_readfrom BL_ADDR expect_len) (\<lambda>rv.
       bindE (if \<not> no_final then
                bindE (i2c_readfrom BL_ADDR 1) (\<lambda>resp.
                if resp \<noteq> BL_ACK then throw (ValueError (Raw resp)) else ret ())
              else ret ()) (\<lambda>_.
       ret (Some rv))))"

text \<open>
  The loop of \<open>_wait_done\<close>: \<open>n\<close> iterations are left, \<open>resp\<close> is the local variable
  (\<open>None\<close> while unassigned). \<open>except OSError\<close> sleeps 50 ms and continues; a
  response other than \<open>BL_BUSY\<close> breaks; \<open>BL_BUSY\<close> sleeps 20 ms.
\<close>

fun wait_loop :: "nat \<Rightarrow> bytes option \<Rightarrow> bytes option io" where
  "wait_loop 0 resp b = (Inr resp, b)"
| "wait_loop (Suc n) resp b =
     (case i2c_readfrom BL_ADDR 1 b of
        (Inl e, b1) \<Rightarrow>
          if e = OSError then wait_loop n resp (snd (sleep_ms 50 b1)) else (Inl e, b1)
      | (Inr r, b1) \<Rightarrow>
          if r \<noteq> BL_BUSY then (Inr (Some r), b1)
          else wait_loop n (Some r) (snd (sleep_ms 20 b1)))"

definition wait_done :: "bytes io" where
  "wait_done =
     bindE (wait_loop 100 None) (\<lambda>resp.
     case resp of None \<Rightarrow> throw NameError | Some r \<Rightarrow> ret r)"

definition bl_doit :: "int \<Rightarrow> bytes \<Rightarrow> bytes io" where
  "bl_doit cmd a =
     bindE (send_cmd cmd) (\<lambda>_.
     bindE (lift (add_xor_check a)) (\<lambda>frame.
     bindE (i2c_writeto BL_ADDR frame) (\<lambda>_.
     wait_done)))"

definition bl_double_ack :: "int \<Rightarrow> bytes io" where
  "bl_double_ack cmd =
     bindE (send_cmd cmd) (\<lambda>_.
     bindE wait_done (\<lambda>resp.
     if resp = BL_ACK then wait_done else ret resp))"

definition get_version :: "bytes option io" where
  "get_version = bl_cmd_read 0x0 20 None None False"

definition bulk_erase :: "bool io" where
  "bulk_erase = bindE (bl_doit 0x45 [0xff, 0xff]) (\<lambda>r. ret (r = BL_ACK))"

definition readout_unprotect :: "bytes io" where
  "readout_unprotect = bl_double_ack 0x93"

definition readout_protect :: "bytes io" where
  "readout_protect = bl_double_ack 0x83"

definition read_at :: "arg \<Rightarrow> int \<Rightarrow> bytes option io" where
  "read_at addr ln =
     bindE (py_assert (ln \<le> 256)) (\<lambda>_.
     bl_cmd_read 0x11 ln (Some addr) (Some (IntArg (ln - 1))) True)"

definition write_at :: "int \<Rightarrow> bytes \<Rightarrow> bool io" where
  "write_at addr data =
     (let ln = int (length data) in
      bindE (py_assert (ln \<le> 256)) (\<lambda>_.
      bindE (py_assert (ln mod 4 = 0)) (\<lambda>_.
      bindE (py_assert (addr mod 4 = 0)) (\<lambda>_.
      bindE (lift (py_bytes [ln - 1])) (\<lambda>h.
      bindE (lift (add_xor_check (h @ data))) (\<lambda>a.
      bindE (bl_cmd_read 0x32 0 (Some (IntArg addr)) None False) (\<lambda>_.
      bindE (i2c_writeto BL_ADDR a) (\<lambda>_.
      bindE wait_done (\<lambda>resp.
      ret (resp = BL_ACK))))))))))"

definition run_at :: "int \<Rightarrow> bytes option io" where
  "run_at addr = bl_cmd_read 0x21 0 (Some (IntArg addr)) None False"

section \<open>Vocabulary of the specification\<close>

text \<open>The XOR of all bytes of a sequence (0 for the empty one).\<close>

definition xor_sum :: "bytes \<Rightarrow> byte" where
  "xor_sum s = foldr (XOR) s 0"

text \<open>The unsigned integer that a byte sequence denotes, most significant byte first.\<close>

definition be_value :: "bytes \<Rightarrow> int" where
  "be_value bs = foldl (\<lambda>acc x. acc * 256 + uint x) 0 bs"

text \<open>
  The exception that an acknowledgement check raises when the reply \<open>r\<close> to its read
  is not ACK: the transport's \<open>OSError\<close> when the read itself failed, otherwise the
  \<open>ValueError\<close> with the message \<open>m\<close> of that check.
\<close>

definition status_error :: "bytes option \<Rightarrow> string \<Rightarrow> exc" where
  "status_error r m = (case r of None \<Rightarrow> OSError | Some s \<Rightarrow> ValueError (Text m))"

text \<open>
  The outcome of an operation that ends with a poll whose outcome is \<open>p\<close>: success
  (true) exactly when the final status is ACK; an exception of the poll is passed on.
\<close>

definition ack_result :: "(exc + bytes) \<times> bus \<Rightarrow> (exc + bool) \<times> bus" where
  "ack_result p =
     (case p of (Inl e, b) \<Rightarrow> (Inl e, b) | (Inr r, b) \<Rightarrow> (Inr (r = [0x79]), b))"

text \<open>
  The address frame of an address argument: an integer as its four bytes, most
  significant first, followed by their XOR; a byte sequence as it is.
\<close>

text \<open>
  An address argument that fits the frame: an integer must be an unsigned 32-bit value,
  the range that \<open>struct.pack('>I', ...)\<close> encodes.
\<close>

definition addr_ok :: "arg \<Rightarrow> bool" where
  "addr_ok a = (case a of IntArg n \<Rightarrow> 0 \<le> n \<and> n < 2 ^ 32 | BytesArg bs \<Rightarrow> True)"

definition addr_frame :: "arg \<Rightarrow> bytes" where
  "addr_frame a =
     (case a of IntArg n \<Rightarrow> pack_be32 n @ [xor_sum (pack_be32 n)] | BytesArg bs \<Rightarrow> bs)"

fun is_read :: "event \<Rightarrow> bool" where
  "is_read (ReadFrom a n) = True"
| "is_read e = False"

fun is_write :: "event \<Rightarrow> bool" where
  "is_write (WriteTo a buf) = True"
| "is_write e = False"

text \<open>
  The bus after the driver has made the calls \<open>evs\<close>: they are appended to the trace,
  and each read and each write has used up one reply.
\<close>

definition after :: "event list \<Rightarrow> bus \<Rightarrow> bus" where
  "after evs b =
     b\<lparr>trace := trace b @ evs,
       rx := sdrop (length (filter is_read evs)) (rx b),
       tx := sdrop (length (filter is_write evs)) (tx b)\<rparr>"

text \<open>
  Polling as the specification describes it. \<open>polled n s\<close> are the replies that a poll
  of at most \<open>n\<close> attempts uses up from \<open>s\<close>: it goes on after a reply that is a
  transport error or BUSY and stops after any other status. \<open>attempt_events r\<close> are
  the calls of one attempt whose reply is \<open>r\<close>; \<open>last_status rs resp\<close> is the last
  status among the replies \<open>rs\<close>, or \<open>resp\<close> when there is none.
\<close>

fun polled :: "nat \<Rightarrow> bytes option stream \<Rightarrow> bytes option list" where
  "polled 0 s = []"
| "polled (Suc n) s =
     shd s # (if shd s = None \<or> shd s = Some BL_BUSY then polled n (stl s) else [])"

definition attempt_events :: "bytes option \<Rightarrow> event list" where
  "attempt_events r =
     (case r of
        None \<Rightarrow> [ReadFrom BL_ADDR 1, SleepMs 50]
      | Some s \<Rightarrow>
          if s = BL_BUSY then [ReadFrom BL_ADDR 1, SleepMs 20] else [ReadFrom BL_ADDR 1])"

definition last_status :: "bytes option list \<Rightarrow> bytes option \<Rightarrow> bytes option" where
  "last_status rs resp = fold (\<lambda>r acc. case r of None \<Rightarrow> acc | Some s \<Rightarrow> Some s) rs resp"

section \<open>The checksum\<close>

lemma fold_xor_uint:
  "fold (\<lambda>b rv. rv XOR uint b) lst (uint w) = uint (fold (\<lambda>b rv. rv XOR b) lst w)"
  by (induction lst arbitrary: w) (simp_all flip: uint_xor)

lemma fold_xor_acc: "fold (\<lambda>b rv. rv XOR b) lst (w :: byte) = w XOR xor_sum lst"
  by (induction lst arbitrary: w) (simp_all add: xor_sum_def ac_simps)

lemma fold_xor_int: "fold (\<lambda>b rv. rv XOR uint b) lst (0 :: int) = uint (xor_sum lst)"
  using fold_xor_uint [of lst 0] by (simp add: fold_xor_acc)

lemma uint_byte_le: "uint (w :: byte) \<le> 255"
  using uint_lt2p [of w] by simp

lemma add_xor_check_eq: "add_xor_check lst = Inr (lst @ [xor_sum lst])"
  by (simp add: add_xor_check_def fold_xor_int py_bytes_def uint_byte_le)

lemma xor_sum_append: "xor_sum (xs @ ys) = xor_sum xs XOR xor_sum ys"
  by (induction xs) (simp_all add: xor_sum_def ac_simps)

text \<open>
  C3. For every byte sequence \<open>s\<close>, \<open>add_xor_check s\<close> returns (without raising) \<open>s\<close>
  followed by exactly one byte, the XOR of all bytes of \<open>s\<close> (0 for the empty
  sequence); the output has length \<open>len(s) + 1\<close> and the XOR of all its bytes is 0.
\<close>

theorem add_xor_check_appends_xor:
  "\<exists>out. add_xor_check s = Inr out
     \<and> out = s @ [xor_sum s]
     \<and> length out = length s + 1
     \<and> xor_sum out = 0
     \<and> xor_sum [] = 0"
  by (simp add: add_xor_check_eq xor_sum_append) (simp add: xor_sum_def)

section \<open>The bus primitives\<close>

lemma after_Nil: "after [] b = b"
  by (simp add: after_def)

lemma after_after: "after ys (after xs b) = after (xs @ ys) b"
  by (simp add: after_def add.commute)

lemma trace_after: "trace (after evs b) = trace b @ evs"
  by (simp add: after_def)

lemma rx_after: "rx (after evs b) = sdrop (length (filter is_read evs)) (rx b)"
  by (simp add: after_def)

lemma tx_after: "tx (after evs b) = sdrop (length (filter is_write evs)) (tx b)"
  by (simp add: after_def)

lemma i2c_writeto_eq:
  "i2c_writeto a buf b = ((if shd (tx b) then Inr () else Inl OSError), after [WriteTo a buf] b)"
  by (simp add: i2c_writeto_def after_def)

lemma i2c_readfrom_eq:
  "i2c_readfrom a n b =
     ((case shd (rx b) of None \<Rightarrow> Inl OSError | Some d \<Rightarrow> Inr d), after [ReadFrom a n] b)"
  by (simp add: i2c_readfrom_def after_def split: option.split)

lemma sleep_ms_eq: "sleep_ms t b = (Inr (), after [SleepMs t] b)"
  by (simp add: sleep_ms_def after_def)

lemma stake_sconst: "stake n (sconst x) = replicate n x"
  by (induction n) (simp_all del: stake_siterate)

lemma sdrop_sconst: "sdrop n (sconst x) = sconst x"
  by (induction n) simp_all

section \<open>Busy-polling\<close>

lemma reads_of_attempts:
  "length (filter is_read (concat (map attempt_events rs))) = length rs"
  by (induction rs) (simp_all add: attempt_events_def split: option.split)

lemma writes_of_attempts: "filter is_write (concat (map attempt_events rs)) = []"
  by (induction rs) (simp_all add: attempt_events_def split: option.split)

lemma wait_loop_eq:
  "wait_loop n resp b =
     (Inr (last_status (polled n (rx b)) resp),
      after (concat (map attempt_events (polled n (rx b)))) b)"
proof (induction n arbitrary: resp b)
  case 0
  then show ?case by (simp add: last_status_def after_Nil)
next
  case (Suc n)
  show ?case
  proof (cases "shd (rx b)")
    case None
    then show ?thesis
      by (simp add: Suc i2c_readfrom_eq sleep_ms_eq after_after rx_after last_status_def
          attempt_events_def)
  next
    case (Some r)
    then show ?thesis
      by (simp add: Suc i2c_readfrom_eq sleep_ms_eq after_after rx_after last_status_def
          attempt_events_def after_Nil)
  qed
qed

lemma wait_done_eq:
  "wait_done b =
     ((case last_status (polled 100 (rx b)) None of None \<Rightarrow> Inl NameError | Some r \<Rightarrow> Inr r),
      after (concat (map attempt_events (polled 100 (rx b)))) b)"
  by (simp add: wait_done_def bindE_def wait_loop_eq throw_def ret_def split: option.split)

lemma length_polled: "length (polled n s) \<le> n"
  by (induction n arbitrary: s) simp_all

lemma polled_busy:
  "stake n s = replicate n (Some BL_BUSY) \<Longrightarrow> polled n s = replicate n (Some BL_BUSY)"
  by (induction n arbitrary: s) simp_all

lemma polled_nodev: "stake n s = replicate n None \<Longrightarrow> polled n s = replicate n None"
  by (induction n arbitrary: s) simp_all

lemma last_status_Some: "\<exists>y. last_status rs (Some x) = Some y"
  by (induction rs arbitrary: x) (simp_all add: last_status_def split: option.split)

lemma last_status_busy: "last_status (replicate (Suc n) (Some x)) r = Some x"
  by (induction n arbitrary: r) (simp_all add: last_status_def)

lemma last_status_nodev: "last_status (replicate n None) r = r"
  by (induction n) (simp_all add: last_status_def)

lemma observed_iff:
  "(\<exists>r. last_status (polled n s) None = Some r) \<longleftrightarrow> (\<exists>i<n. s !! i \<noteq> None)"
proof (induction n arbitrary: s)
  case 0
  then show ?case by (simp add: last_status_def)
next
  case (Suc n)
  show ?case
  proof (cases "shd s")
    case None
    have "(\<exists>i<Suc n. s !! i \<noteq> None) \<longleftrightarrow> (\<exists>i<n. stl s !! i \<noteq> None)"
      using None by (auto simp: less_Suc_eq_0_disj)
    moreover have "last_status (polled (Suc n) s) None = last_status (polled n (stl s)) None"
      using None by (simp add: last_status_def)
    ultimately show ?thesis using Suc [of "stl s"] by simp
  next
    case (Some r)
    have "last_status (polled (Suc n) s) None
            = last_status (if r = BL_BUSY then polled n (stl s) else []) (Some r)"
      using Some by (simp add: last_status_def)
    then have "\<exists>y. last_status (polled (Suc n) s) None = Some y"
      using last_status_Some by simp
    moreover have "\<exists>i<Suc n. s !! i \<noteq> None"
      using Some by (intro exI [of _ 0]) simp
    ultimately show ?thesis by blast
  qed
qed

lemma reads_replicate:
  "length (filter is_read (concat (replicate n [ReadFrom a k, SleepMs t]))) = n"
  by (induction n) simp_all

lemma writes_replicate:
  "filter is_write (concat (replicate n [ReadFrom a k, SleepMs t])) = []"
  by (induction n) simp_all

lemma wait_done_all_busy:
  assumes "stake 100 (rx b) = replicate 100 (Some BL_BUSY)"
  shows "wait_done b =
           (Inr BL_BUSY, after (concat (replicate 100 [ReadFrom BL_ADDR 1, SleepMs 20])) b)"
proof -
  have p: "polled 100 (rx b) = replicate 100 (Some BL_BUSY)"
    using assms by (rule polled_busy)
  have "last_status (replicate (Suc 99) (Some BL_BUSY)) None = Some BL_BUSY"
    by (rule last_status_busy)
  then have l: "last_status (replicate 100 (Some BL_BUSY)) None = Some BL_BUSY"
    by simp
  show ?thesis
    by (simp add: wait_done_eq p l attempt_events_def map_replicate_const)
qed

text \<open>
  C1. \<open>wait_done\<close> is a total function (it always returns or raises) and makes at most
  100 status reads. The calls it makes are those of the attempts \<open>polled 100 (rx b)\<close>,
  at most 100 of them, one read each: an attempt that raises \<open>OSError\<close> is followed
  by a sleep of 50 ms and the next attempt, an attempt that returns BUSY (0x76) by a
  sleep of 20 ms and the next attempt, and any other status ends the poll. When the
  device returns BUSY on every one of the 100 attempts, \<open>wait_done\<close> makes exactly
  100 reads, each followed by a sleep of 20 ms, and returns BUSY; it does not raise.
\<close>

theorem wait_done_bounded:
  "length (filter is_read (drop (length (trace b)) (trace (snd (wait_done b))))) \<le> 100
   \<and> length (polled 100 (rx b)) \<le> 100
   \<and> snd (wait_done b) = after (concat (map attempt_events (polled 100 (rx b)))) b
   \<and> length (filter is_read (concat (map attempt_events (polled 100 (rx b)))))
       = length (polled 100 (rx b))
   \<and> fst (wait_done b) =
       (case last_status (polled 100 (rx b)) None of None \<Rightarrow> Inl NameError | Some r \<Rightarrow> Inr r)
   \<and> (stake 100 (rx b) = replicate 100 (Some BL_BUSY) \<longrightarrow>
        wait_done b =
          (Inr BL_BUSY, after (concat (replicate 100 [ReadFrom BL_ADDR 1, SleepMs 20])) b))"
  using wait_done_all_busy [of b] length_polled [of 100 "rx b"]
  by (simp add: wait_done_eq reads_of_attempts trace_after)

theorem wait_done_bounded_witness:
  "stake 100 (sconst (Some BL_BUSY)) = replicate 100 (Some BL_BUSY)
   \<and> wait_done \<lparr>trace = [], rx = sconst (Some BL_BUSY), tx = sconst True\<rparr> =
       (Inr BL_BUSY,
        \<lparr>trace = concat (replicate 100 [ReadFrom BL_ADDR 1, SleepMs 20]),
         rx = sconst (Some BL_BUSY), tx = sconst True\<rparr>)
   \<and> length (filter is_read (concat (replicate 100 [ReadFrom BL_ADDR 1, SleepMs 20]))) = 100"
  using wait_done_bounded [of "\<lparr>trace = [], rx = sconst (Some BL_BUSY), tx = sconst True\<rparr>"]
  by (simp add: stake_sconst sdrop_sconst after_def reads_replicate writes_replicate
      del: stake_siterate sdrop_siterate)

text \<open>
  C9. When every one of the 100 reads of \<open>wait_done\<close> raises \<open>OSError\<close>, the local
  variable \<open>resp\<close> is never assigned and \<open>return resp\<close> raises \<open>NameError\<close>, after
  100 reads each followed by a sleep of 50 ms: no status is returned. \<open>wait_done\<close>
  returns a status exactly when at least one of the first 100 reads succeeds, and
  otherwise raises \<open>NameError\<close>.
\<close>

theorem wait_done_unassigned:
  "(stake 100 (rx b) = replicate 100 None \<longrightarrow>
      wait_done b =
        (Inl NameError, after (concat (replicate 100 [ReadFrom BL_ADDR 1, SleepMs 50])) b))
   \<and> ((\<exists>r. fst (wait_done b) = Inr r) \<longleftrightarrow> (\<exists>i<100. rx b !! i \<noteq> None))
   \<and> ((\<exists>r. fst (wait_done b) = Inr r) \<or> fst (wait_done b) = Inl NameError)"
proof -
  have nodev: "wait_done b =
        (Inl NameError, after (concat (replicate 100 [ReadFrom BL_ADDR 1, SleepMs 50])) b)"
    if "stake 100 (rx b) = replicate 100 None"
  proof -
    have p: "polled 100 (rx b) = replicate 100 None"
      using that by (rule polled_nodev)
    show ?thesis
      by (simp add: wait_done_eq p last_status_nodev attempt_events_def map_replicate_const)
  qed
  have "(\<exists>r. fst (wait_done b) = Inr r) \<longleftrightarrow> (\<exists>r. last_status (polled 100 (rx b)) None = Some r)"
    by (simp add: wait_done_eq split: option.split)
  then have iff: "(\<exists>r. fst (wait_done b) = Inr r) \<longleftrightarrow> (\<exists>i<100. rx b !! i \<noteq> None)"
    by (simp only: observed_iff)
  have alt: "(\<exists>r. fst (wait_done b) = Inr r) \<or> fst (wait_done b) = Inl NameError"
    by (simp add: wait_done_eq split: option.split)
  show ?thesis using nodev iff alt by blast
qed

theorem wait_done_unassigned_witness:
  "stake 100 (sconst None) = replicate 100 (None :: bytes option)
   \<and> wait_done \<lparr>trace = [], rx = sconst None, tx = sconst True\<rparr> =
       (Inl NameError,
        \<lparr>trace = concat (replicate 100 [ReadFrom BL_ADDR 1, SleepMs 50]),
         rx = sconst None, tx = sconst True\<rparr>)"
  using wait_done_unassigned [of "\<lparr>trace = [], rx = sconst None, tx = sconst True\<rparr>"]
  by (simp add: stake_sconst sdrop_sconst after_def reads_replicate writes_replicate
      del: stake_siterate sdrop_siterate)

section \<open>Commands and addresses\<close>

lemmas io_defs = bindE_def lift_def throw_def ret_def py_assert_def
lemmas bus_eqs = i2c_writeto_eq i2c_readfrom_eq sleep_ms_eq after_after rx_after tx_after

lemma py_bytes_byte: "py_bytes (map uint ws) = Inr (ws :: bytes)"
  by (simp add: py_bytes_def list_all_iff uint_byte_le map_idI)

lemma xor_ff_uint: "0xff XOR uint (c :: byte) = uint (0xff XOR c)"
  by (simp add: uint_xor)

lemma cmd_frame: "py_bytes [uint c, 0xff XOR uint c] = Inr [c, 0xff XOR c]"
  using py_bytes_byte [of "[c, 0xff XOR c]"] by (simp add: xor_ff_uint)

lemma send_cmd_eq:
  "send_cmd (uint c) b =
     (if \<not> shd (tx b) then (Inl OSError, after [WriteTo 0x64 [c, 0xff XOR c]] b)
      else if shd (rx b) \<noteq> Some [0x79]
        then (Inl (status_error (shd (rx b)) ''unknown command''),
              after [WriteTo 0x64 [c, 0xff XOR c], ReadFrom 0x64 1] b)
      else (Inr (), after [WriteTo 0x64 [c, 0xff XOR c], ReadFrom 0x64 1] b))"
  by (simp add: send_cmd_def cmd_frame io_defs bus_eqs status_error_def BL_ADDR_def BL_ACK_def
      split: option.split)

lemma bl_cmd_read_addr_only:
  "bl_cmd_read (uint c) 0 (Some (IntArg n)) None nf b =
     (if \<not> tx b !! 0 then (Inl OSError, after [WriteTo 0x64 [c, 0xff XOR c]] b)
      else if rx b !! 0 \<noteq> Some [0x79]
        then (Inl (status_error (rx b !! 0) ''unknown command''),
              after [WriteTo 0x64 [c, 0xff XOR c], ReadFrom 0x64 1] b)
      else if \<not> tx b !! 1
        then (Inl OSError,
              after [WriteTo 0x64 [c, 0xff XOR c], ReadFrom 0x64 1,
                     WriteTo 0x64 (pack_be32 n @ [xor_sum (pack_be32 n)])] b)
      else if rx b !! 1 \<noteq> Some [0x79]
        then (Inl (status_error (rx b !! 1) ''bad addr''),
              after [WriteTo 0x64 [c, 0xff XOR c], ReadFrom 0x64 1,
                     WriteTo 0x64 (pack_be32 n @ [xor_sum (pack_be32 n)]), ReadFrom 0x64 1] b)
      else (Inr None,
              after [WriteTo 0x64 [c, 0xff XOR c], ReadFrom 0x64 1,
                     WriteTo 0x64 (pack_be32 n @ [xor_sum (pack_be32 n)]), ReadFrom 0x64 1] b))"
  by (simp add: bl_cmd_read_def send_cmd_eq add_xor_check_eq io_defs bus_eqs status_error_def
      BL_ADDR_def BL_ACK_def split: option.split)


lemma be_value_pack:
  assumes "0 \<le> v" "v < 2 ^ 32"
  shows "be_value (pack_be32 v) = v"
proof -
  define q1 where "q1 = v div 256"
  define q2 where "q2 = q1 div 256"
  define q3 where "q3 = q2 div 256"
  have u: "uint (word_of_int (k mod 256) :: byte) = k mod 256" for k
    by (simp add: uint_word_of_int take_bit_eq_mod)
  have d8: "v div 256 = q1"
    by (simp add: q1_def)
  have d16: "v div 65536 = q2"
    using zdiv_zmult2_eq [of 256 v 256] by (simp add: q2_def q1_def)
  have d24: "v div 16777216 = q3"
    using zdiv_zmult2_eq [of 256 v 65536] d16 by (simp add: q3_def)
  have e0: "v = q1 * 256 + v mod 256" and e1: "q1 = q2 * 256 + q1 mod 256"
    and e2: "q2 = q3 * 256 + q2 mod 256"
    by (simp_all add: q1_def q2_def q3_def)
  have r: "0 \<le> k mod 256 \<and> k mod 256 < 256" for k :: int
    by simp
  have "0 \<le> q3 \<and> q3 < 256"
    using assms e0 e1 e2 r [of v] r [of q1] r [of q2] by simp linarith
  then have top: "q3 mod 256 = q3"
    by simp
  have "be_value (pack_be32 v)
          = ((q3 mod 256 * 256 + q2 mod 256) * 256 + q1 mod 256) * 256 + v mod 256"
    by (simp add: be_value_def pack_be32_def u d8 d16 d24)
  also have "\<dots> = v"
    using e0 e1 e2 by (simp add: top)
  finally show ?thesis .
qed

section \<open>Writing memory\<close>

lemma bind_ack_result:
  "bindE m (\<lambda>resp. ret (resp = BL_ACK)) = (\<lambda>b. ack_result (m b))"
  by (rule ext) (simp add: bindE_def ret_def ack_result_def BL_ACK_def split: prod.split sum.split)

lemma polled_stop: "0 < n \<Longrightarrow> shd s = Some r \<Longrightarrow> r \<noteq> BL_BUSY \<Longrightarrow> polled n s = [Some r]"
  by (cases n) simp_all

lemma wait_done_immediate:
  assumes "shd (rx b) = Some r" "r \<noteq> BL_BUSY"
  shows "wait_done b = (Inr r, after [ReadFrom 0x64 1] b)"
  using assms
  by (simp add: wait_done_eq polled_stop [of 100] last_status_def attempt_events_def BL_ADDR_def)

lemma len_byte:
  assumes "data \<noteq> []" "length data \<le> 256"
  shows "py_bytes [int (length data) - 1] = Inr [of_nat (length data - 1)]"
proof -
  obtain n where n: "length data = Suc n"
    using assms(1) by (cases data) auto
  have "n \<le> 255"
    using assms(2) n by simp
  then show ?thesis
    by (simp add: py_bytes_def n)
qed

text \<open>
  C4. For a 32-bit address divisible by 4 and non-empty data of at most 256 bytes, a multiple
  of 4, \<open>write_at\<close> makes exactly these calls, in this order: it writes the command
  frame \<open>{0x32, 0xCD}\<close> and reads one status byte (which must be ACK), writes the
  address frame (the four bytes of the address, most significant first, and their XOR)
  and reads one status byte (which must be ACK), reads no payload, writes the single
  frame made of the byte \<open>len(data) - 1\<close>, the data and the XOR of those
  \<open>len(data) + 1\<close> bytes, and then polls with \<open>wait_done\<close>; it returns true if and
  only if the status that the poll returns is ACK (0x79). A status other than ACK
  after the command or the address, or a transport error, ends the exchange there with
  the exception.
\<close>

theorem write_at_sequence:
  assumes "data \<noteq> []" "length data \<le> 256" "length data mod 4 = 0" "addr mod 4 = 0"
    and "0 \<le> addr" "addr < 2 ^ 32"
  shows "write_at addr data b =
     (let cmd = WriteTo 0x64 [0x32, 0xCD];
          ack = ReadFrom 0x64 1;
          adr = WriteTo 0x64 (pack_be32 addr @ [xor_sum (pack_be32 addr)]);
          dat = WriteTo 0x64 (of_nat (length data - 1) # data
                               @ [xor_sum (of_nat (length data - 1) # data)])
      in if \<not> tx b !! 0 then (Inl OSError, after [cmd] b)
         else if rx b !! 0 \<noteq> Some [0x79]
           then (Inl (status_error (rx b !! 0) ''unknown command''), after [cmd, ack] b)
         else if \<not> tx b !! 1 then (Inl OSError, after [cmd, ack, adr] b)
         else if rx b !! 1 \<noteq> Some [0x79]
           then (Inl (status_error (rx b !! 1) ''bad addr''), after [cmd, ack, adr, ack] b)
         else if \<not> tx b !! 2 then (Inl OSError, after [cmd, ack, adr, ack, dat] b)
         else ack_result (wait_done (after [cmd, ack, adr, ack, dat] b)))
     \<and> length (pack_be32 addr) = 4
     \<and> be_value (pack_be32 addr) = addr"
proof -
  note c = bl_cmd_read_addr_only [of "0x32", simplified]
  have m: "int (length data) mod 4 = 0"
    using assms(3) by presburger
  have main: "write_at addr data b =
     (let cmd = WriteTo 0x64 [0x32, 0xCD];
          ack = ReadFrom 0x64 1;
          adr = WriteTo 0x64 (pack_be32 addr @ [xor_sum (pack_be32 addr)]);
          dat = WriteTo 0x64 (of_nat (length data - 1) # data
                               @ [xor_sum (of_nat (length data - 1) # data)])
      in if \<not> tx b !! 0 then (Inl OSError, after [cmd] b)
         else if rx b !! 0 \<noteq> Some [0x79]
           then (Inl (status_error (rx b !! 0) ''unknown command''), after [cmd, ack] b)
         else if \<not> tx b !! 1 then (Inl OSError, after [cmd, ack, adr] b)
         else if rx b !! 1 \<noteq> Some [0x79]
           then (Inl (status_error (rx b !! 1) ''bad addr''), after [cmd, ack, adr, ack] b)
         else if \<not> tx b !! 2 then (Inl OSError, after [cmd, ack, adr, ack, dat] b)
         else ack_result (wait_done (after [cmd, ack, adr, ack, dat] b)))"
    using assms(2) assms(4) m
    by (simp add: write_at_def Let_def len_byte [OF assms(1) assms(2)] add_xor_check_eq c
        bind_ack_result io_defs bus_eqs BL_ADDR_def numeral_2_eq_2)
  have len: "length (pack_be32 addr) = 4"
    by (simp add: pack_be32_def)
  show ?thesis
    using main len be_value_pack [OF assms(5) assms(6)] by blast
qed

theorem write_at_sequence_witness:
  "write_at 0x08000100 [0, 0, 0, 0] \<lparr>trace = [], rx = sconst (Some [0x79]), tx = sconst True\<rparr> =
     (Inr True,
      \<lparr>trace = [WriteTo 0x64 [0x32, 0xCD], ReadFrom 0x64 1,
                WriteTo 0x64 [0x08, 0x00, 0x01, 0x00, 0x09], ReadFrom 0x64 1,
                WriteTo 0x64 [0x03, 0, 0, 0, 0, 0x03], ReadFrom 0x64 1],
       rx = sconst (Some [0x79]), tx = sconst True\<rparr>)
   \<and> be_value (pack_be32 0x08000100) = 0x08000100"
proof -
  let ?b = "\<lparr>trace = [], rx = sconst (Some [0x79]), tx = sconst True\<rparr>"
  let ?evs = "[WriteTo 0x64 [0x32, 0xCD], ReadFrom 0x64 1,
                WriteTo 0x64 [0x08, 0x00, 0x01, 0x00, 0x09], ReadFrom 0x64 1,
                WriteTo 0x64 [0x03, 0, 0, 0, 0, 0x03]]"
  have w: "wait_done (after ?evs ?b) = (Inr [0x79], after [ReadFrom 0x64 1] (after ?evs ?b))"
    by (rule wait_done_immediate) (simp_all add: rx_after BL_BUSY_def)
  have p: "pack_be32 0x08000100 = [0x08, 0x00, 0x01, 0x00]"
    by (simp add: pack_be32_def)
  show ?thesis
    using write_at_sequence [of "[0, 0, 0, 0]" "0x08000100" ?b] w
    by (simp add: Let_def p xor_sum_def ack_result_def after_after) (simp add: after_def)
qed

section \<open>The command frame\<close>

text \<open>
  C2. For every command byte \<open>c\<close>, \<open>send_cmd\<close> writes exactly the two-byte frame
  \<open>{c, 0xFF XOR c}\<close> to the bus address 0x64 and then reads exactly one status byte; it
  returns normally when that byte is ACK (0x79) and raises \<open>ValueError\<close> for every
  other status. (When the transport refuses the write, nothing is read; an
  \<open>OSError\<close> of the transport is passed on.)
\<close>

theorem send_cmd_frame_then_ack:
  "send_cmd (uint c) b =
     (if \<not> shd (tx b) then (Inl OSError, after [WriteTo 0x64 [c, 0xff XOR c]] b)
      else case shd (rx b) of
             None \<Rightarrow> (Inl OSError, after [WriteTo 0x64 [c, 0xff XOR c], ReadFrom 0x64 1] b)
           | Some s \<Rightarrow>
               ((if s = [0x79] then Inr () else Inl (ValueError (Text ''unknown command''))),
                after [WriteTo 0x64 [c, 0xff XOR c], ReadFrom 0x64 1] b))"
  by (simp add: send_cmd_eq status_error_def split: option.split)

theorem send_cmd_frame_then_ack_witness:
  "send_cmd 0x45 \<lparr>trace = [], rx = sconst (Some [0x79]), tx = sconst True\<rparr> =
     (Inr (),
      \<lparr>trace = [WriteTo 0x64 [0x45, 0xBA], ReadFrom 0x64 1],
       rx = sconst (Some [0x79]), tx = sconst True\<rparr>)
   \<and> send_cmd 0x45 \<lparr>trace = [], rx = sconst (Some [0x1f]), tx = sconst True\<rparr> =
     (Inl (ValueError (Text ''unknown command'')),
      \<lparr>trace = [WriteTo 0x64 [0x45, 0xBA], ReadFrom 0x64 1],
       rx = sconst (Some [0x1f]), tx = sconst True\<rparr>)"
  using send_cmd_frame_then_ack [of "0x45" "\<lparr>trace = [], rx = sconst (Some [0x79]), tx = sconst True\<rparr>"]
    send_cmd_frame_then_ack [of "0x45" "\<lparr>trace = [], rx = sconst (Some [0x1f]), tx = sconst True\<rparr>"]
  by (simp add: after_def)

section \<open>Mass erase\<close>

lemma ack_result_Inl: "ack_result (Inl e, b) = (Inl e, b)"
  by (simp add: ack_result_def)

text \<open>
  C8. \<open>bulk_erase\<close> is \<open>bl_doit 0x45 {0xFF, 0xFF}\<close>: it sends the command 0x45
  (frame \<open>{0x45, 0xBA}\<close>, one status byte that must be ACK), writes the two bytes
  0xFF 0xFF followed by their XOR byte 0x00, and polls with \<open>wait_done\<close>; it returns
  true if and only if the status that the poll returns is ACK (0x79).
\<close>

theorem bulk_erase_sequence:
  "bulk_erase b =
     (let cmd = WriteTo 0x64 [0x45, 0xBA];
          ack = ReadFrom 0x64 1;
          dat = WriteTo 0x64 [0xFF, 0xFF, 0x00]
      in if \<not> tx b !! 0 then (Inl OSError, after [cmd] b)
         else if rx b !! 0 \<noteq> Some [0x79]
           then (Inl (status_error (rx b !! 0) ''unknown command''), after [cmd, ack] b)
         else if \<not> tx b !! 1 then (Inl OSError, after [cmd, ack, dat] b)
         else ack_result (wait_done (after [cmd, ack, dat] b)))
   \<and> add_xor_check [0xFF, 0xFF] = Inr [0xFF, 0xFF, 0x00]"
proof -
  note c = send_cmd_eq [of "0x45", simplified]
  have x: "add_xor_check [0xFF, 0xFF] = Inr [0xFF, 0xFF, 0x00]"
    by (simp add: add_xor_check_eq xor_sum_def)
  show ?thesis
    by (simp add: bulk_erase_def bl_doit_def x c bind_ack_result ack_result_Inl io_defs bus_eqs
        BL_ADDR_def Let_def)
qed

theorem bulk_erase_sequence_witness:
  "bulk_erase \<lparr>trace = [], rx = sconst (Some [0x79]), tx = sconst True\<rparr> =
     (Inr True,
      \<lparr>trace = [WriteTo 0x64 [0x45, 0xBA], ReadFrom 0x64 1, WriteTo 0x64 [0xFF, 0xFF, 0x00],
                ReadFrom 0x64 1],
       rx = sconst (Some [0x79]), tx = sconst True\<rparr>)
   \<and> bulk_erase \<lparr>trace = [], rx = Some [0x79] ## sconst (Some [0x1f]), tx = sconst True\<rparr> =
     (Inr False,
      \<lparr>trace = [WriteTo 0x64 [0x45, 0xBA], ReadFrom 0x64 1, WriteTo 0x64 [0xFF, 0xFF, 0x00],
                ReadFrom 0x64 1],
       rx = sconst (Some [0x1f]), tx = sconst True\<rparr>)"
proof -
  let ?evs = "[WriteTo 0x64 [0x45, 0xBA], ReadFrom 0x64 1, WriteTo 0x64 [0xFF, 0xFF, 0x00]]"
  let ?b = "\<lparr>trace = [], rx = sconst (Some [0x79]), tx = sconst True\<rparr>"
  let ?c = "\<lparr>trace = [], rx = Some [0x79] ## sconst (Some [0x1f]), tx = sconst True\<rparr>"
  have w: "wait_done (after ?evs ?b) = (Inr [0x79], after [ReadFrom 0x64 1] (after ?evs ?b))"
    by (rule wait_done_immediate) (simp_all add: rx_after BL_BUSY_def)
  have v: "wait_done (after ?evs ?c) = (Inr [0x1f], after [ReadFrom 0x64 1] (after ?evs ?c))"
    by (rule wait_done_immediate) (simp_all add: rx_after BL_BUSY_def)
  show ?thesis
    using bulk_erase_sequence [of ?b] bulk_erase_sequence [of ?c] w v
    by (simp add: Let_def ack_result_def after_after) (simp add: after_def)
qed

section \<open>Preconditions of reading and writing memory\<close>

text \<open>
  C5. \<open>read_at\<close> with a length above 256 raises \<open>AssertionError\<close> and leaves the bus
  as it was: no read, no write, no call at all has been made. \<open>write_at\<close> does the
  same for data longer than 256 bytes, for data whose length is not a multiple of 4 and
  for an address not divisible by 4. In particular \<open>read_at\<close> with length 300
  raises with no call made.
\<close>

theorem length_alignment_rejected:
  "(256 < ln \<longrightarrow> read_at a ln b = (Inl AssertionError, b))
   \<and> (256 < length data \<or> length data mod 4 \<noteq> 0 \<or> addr mod 4 \<noteq> 0 \<longrightarrow>
        write_at addr data b = (Inl AssertionError, b))
   \<and> read_at a 300 b = (Inl AssertionError, b)"
proof -
  have r: "read_at a n b = (Inl AssertionError, b)" if "256 < n" for n
    using that by (simp add: read_at_def io_defs)
  have m: "int (length data) mod 4 = 0 \<longleftrightarrow> length data mod 4 = 0"
    by presburger
  have w: "write_at addr data b = (Inl AssertionError, b)"
    if "256 < length data \<or> length data mod 4 \<noteq> 0 \<or> addr mod 4 \<noteq> 0"
    using that by (auto simp add: write_at_def Let_def io_defs m)
  show ?thesis
    using r [of ln] r [of 300] w by simp
qed

theorem length_alignment_rejected_witness:
  "read_at (IntArg 0x08000100) 300 \<lparr>trace = [], rx = sconst (Some [0x79]), tx = sconst True\<rparr>
     = (Inl AssertionError, \<lparr>trace = [], rx = sconst (Some [0x79]), tx = sconst True\<rparr>)
   \<and> write_at 0x08000100 (replicate 260 0) \<lparr>trace = [], rx = sconst (Some [0x79]), tx = sconst True\<rparr>
     = (Inl AssertionError, \<lparr>trace = [], rx = sconst (Some [0x79]), tx = sconst True\<rparr>)
   \<and> write_at 0x08000100 [1, 2, 3] \<lparr>trace = [], rx = sconst (Some [0x79]), tx = sconst True\<rparr>
     = (Inl AssertionError, \<lparr>trace = [], rx = sconst (Some [0x79]), tx = sconst True\<rparr>)
   \<and> write_at 0x08000102 [1, 2, 3, 4] \<lparr>trace = [], rx = sconst (Some [0x79]), tx = sconst True\<rparr>
     = (Inl AssertionError, \<lparr>trace = [], rx = sconst (Some [0x79]), tx = sconst True\<rparr>)"
  using length_alignment_rejected [of 300 "IntArg 0x08000100"
      "\<lparr>trace = [], rx = sconst (Some [0x79]), tx = sconst True\<rparr>" "replicate 260 0" "0x08000100"]
    length_alignment_rejected [of 300 "IntArg 0x08000100"
      "\<lparr>trace = [], rx = sconst (Some [0x79]), tx = sconst True\<rparr>" "[1, 2, 3]" "0x08000100"]
    length_alignment_rejected [of 300 "IntArg 0x08000100"
      "\<lparr>trace = [], rx = sconst (Some [0x79]), tx = sconst True\<rparr>" "[1, 2, 3, 4]" "0x08000102"]
  by simp

section \<open>Length zero\<close>

lemma bad_len_byte:
  "py_bytes [- 1, - 256] = Inl (ValueError (Text ''bytes value out of range''))"
  by (simp add: py_bytes_def)

lemma read_at_zero:
  "read_at a 0 b =
     (let cmd = WriteTo 0x64 [0x11, 0xEE];
          ack = ReadFrom 0x64 1;
          adr = WriteTo 0x64 (addr_frame a)
      in if \<not> tx b !! 0 then (Inl OSError, after [cmd] b)
         else if rx b !! 0 \<noteq> Some [0x79]
           then (Inl (status_error (rx b !! 0) ''unknown command''), after [cmd, ack] b)
         else if \<not> tx b !! 1 then (Inl OSError, after [cmd, ack, adr] b)
         else if rx b !! 1 \<noteq> Some [0x79]
           then (Inl (status_error (rx b !! 1) ''bad addr''), after [cmd, ack, adr, ack] b)
         else (Inl (ValueError (Text ''bytes value out of range'')),
               after [cmd, ack, adr, ack] b))"
proof -
  note c = send_cmd_eq [of "0x11", simplified]
  show ?thesis
    by (cases a)
      (simp_all add: read_at_def bl_cmd_read_def c bad_len_byte add_xor_check_eq addr_frame_def
        io_defs bus_eqs status_error_def BL_ADDR_def BL_ACK_def Let_def split: option.split)
qed

lemma write_at_empty:
  "write_at addr [] b =
     (Inl (if addr mod 4 = 0 then ValueError (Text ''bytes value out of range'')
           else AssertionError), b)"
  by (simp add: write_at_def Let_def io_defs py_bytes_def)

text \<open>
  C10. Length 0 passes every length check and still always raises. \<open>write_at\<close> with
  empty data raises before any call on the bus (\<open>bytes([-1])\<close> is a
  \<open>ValueError\<close>; with a misaligned address the assertion fails first).
  \<open>read_at\<close> with length 0 always raises as well; when the command frame and the
  address frame are both accepted and acknowledged, it raises the \<open>ValueError\<close> of
  \<open>bytes([-1, ...])\<close> with exactly those two frames sent and their two status bytes
  read, and that \<open>ValueError\<close> is raised in no other situation.
\<close>

theorem zero_length_raises:
  "write_at addr [] b =
     (Inl (if addr mod 4 = 0 then ValueError (Text ''bytes value out of range'')
           else AssertionError), b)
   \<and> (\<exists>e. fst (read_at a 0 b) = Inl e)
   \<and> (addr_ok a \<and> tx b !! 0 \<and> rx b !! 0 = Some [0x79] \<and> tx b !! 1
        \<and> rx b !! 1 = Some [0x79] \<longrightarrow>
        read_at a 0 b =
          (Inl (ValueError (Text ''bytes value out of range'')),
           after [WriteTo 0x64 [0x11, 0xEE], ReadFrom 0x64 1,
                  WriteTo 0x64 (addr_frame a), ReadFrom 0x64 1] b))
   \<and> (fst (read_at a 0 b) = Inl (ValueError (Text ''bytes value out of range'')) \<longrightarrow>
        tx b !! 0 \<and> rx b !! 0 = Some [0x79] \<and> tx b !! 1 \<and> rx b !! 1 = Some [0x79])"
proof -
  have e: "\<exists>e. fst (read_at a 0 b) = Inl e"
    by (simp add: read_at_zero Let_def)
  have ok: "read_at a 0 b =
          (Inl (ValueError (Text ''bytes value out of range'')),
           after [WriteTo 0x64 [0x11, 0xEE], ReadFrom 0x64 1,
                  WriteTo 0x64 (addr_frame a), ReadFrom 0x64 1] b)"
    if "tx b !! 0 \<and> rx b !! 0 = Some [0x79] \<and> tx b !! 1 \<and> rx b !! 1 = Some [0x79]"
    using that by (simp add: read_at_zero Let_def)
  have only: "tx b !! 0 \<and> rx b !! 0 = Some [0x79] \<and> tx b !! 1 \<and> rx b !! 1 = Some [0x79]"
    if "fst (read_at a 0 b) = Inl (ValueError (Text ''bytes value out of range''))"
    using that
    by (simp add: read_at_zero Let_def status_error_def split: if_splits option.splits)
  show ?thesis
    using write_at_empty e ok only by blast
qed

theorem zero_length_raises_witness:
  "write_at 0x08000100 [] \<lparr>trace = [], rx = sconst (Some [0x79]), tx = sconst True\<rparr>
     = (Inl (ValueError (Text ''bytes value out of range'')),
        \<lparr>trace = [], rx = sconst (Some [0x79]), tx = sconst True\<rparr>)
   \<and> read_at (IntArg 0x08000100) 0 \<lparr>trace = [], rx = sconst (Some [0x79]), tx = sconst True\<rparr>
     = (Inl (ValueError (Text ''bytes value out of range'')),
        \<lparr>trace = [WriteTo 0x64 [0x11, 0xEE], ReadFrom 0x64 1,
                  WriteTo 0x64 [0x08, 0x00, 0x01, 0x00, 0x09], ReadFrom 0x64 1],
         rx = sconst (Some [0x79]), tx = sconst True\<rparr>)"
proof -
  have p: "addr_frame (IntArg 0x08000100) = [0x08, 0x00, 0x01, 0x00, 0x09]"
    by (simp add: addr_frame_def pack_be32_def xor_sum_def)
  show ?thesis
    using zero_length_raises [of "0x08000100"
        "\<lparr>trace = [], rx = sconst (Some [0x79]), tx = sconst True\<rparr>" "IntArg 0x08000100"]
    by (simp add: p after_def addr_ok_def)
qed

section \<open>Double acknowledgement\<close>

lemma polled_nonempty: "polled (Suc n) s \<noteq> []"
  by simp

lemma wait_done_reads:
  "length (filter is_read (trace (snd (wait_done b)))) > length (filter is_read (trace b))"
proof -
  have "polled (Suc 99) (rx b) \<noteq> []"
    by (rule polled_nonempty)
  then have "0 < length (polled 100 (rx b))"
    by simp
  then show ?thesis
    by (simp add: wait_done_eq trace_after reads_of_attempts)
qed

text \<open>
  C6. \<open>bl_double_ack\<close> sends the command and polls once. When that first poll returns
  ACK (0x79), it polls a second time (at least one more read is made) and its outcome is
  that of the second poll. When the first poll returns any other status (NACK, BUSY
  after the 100 attempts, an unrecognised byte), that status is returned and the bus is
  as the first poll left it: no second poll is made. An exception of the command or of
  the first poll is passed on.
\<close>

theorem bl_double_ack_second_poll:
  "(send_cmd cmd b = (Inr (), b1) \<and> wait_done b1 = (Inr r, b2) \<and> r = [0x79] \<longrightarrow>
      bl_double_ack cmd b = wait_done b2
      \<and> length (filter is_read (trace b2))
          < length (filter is_read (trace (snd (bl_double_ack cmd b)))))
   \<and> (send_cmd cmd b = (Inr (), b1) \<and> wait_done b1 = (Inr r, b2) \<and> r \<noteq> [0x79] \<longrightarrow>
      bl_double_ack cmd b = (Inr r, b2))
   \<and> (send_cmd cmd b = (Inr (), b1) \<and> wait_done b1 = (Inl e, b2) \<longrightarrow>
      bl_double_ack cmd b = (Inl e, b2))
   \<and> (send_cmd cmd b = (Inl e, b1) \<longrightarrow> bl_double_ack cmd b = (Inl e, b1))"
proof -
  have a: "bl_double_ack cmd b = wait_done b2
      \<and> length (filter is_read (trace b2))
          < length (filter is_read (trace (snd (bl_double_ack cmd b))))"
    if "send_cmd cmd b = (Inr (), b1)" "wait_done b1 = (Inr r, b2)" "r = [0x79]"
  proof -
    have "bl_double_ack cmd b = wait_done b2"
      using that by (simp add: bl_double_ack_def bindE_def BL_ACK_def)
    then show ?thesis
      using wait_done_reads [of b2] by simp
  qed
  have n: "bl_double_ack cmd b = (Inr r, b2)"
    if "send_cmd cmd b = (Inr (), b1)" "wait_done b1 = (Inr r, b2)" "r \<noteq> [0x79]"
    using that by (simp add: bl_double_ack_def bindE_def ret_def BL_ACK_def)
  have x: "bl_double_ack cmd b = (Inl e, b2)"
    if "send_cmd cmd b = (Inr (), b1)" "wait_done b1 = (Inl e, b2)"
    using that by (simp add: bl_double_ack_def bindE_def)
  have y: "bl_double_ack cmd b = (Inl e, b1)" if "send_cmd cmd b = (Inl e, b1)"
    using that by (simp add: bl_double_ack_def bindE_def)
  show ?thesis
    using a n x y by blast
qed

theorem bl_double_ack_second_poll_witness:
  "bl_double_ack 0x93
      \<lparr>trace = [], rx = Some [0x79] ## Some [0x79] ## sconst (Some [0x1f]), tx = sconst True\<rparr>
     = (Inr [0x1f],
        \<lparr>trace = [WriteTo 0x64 [0x93, 0x6C], ReadFrom 0x64 1, ReadFrom 0x64 1, ReadFrom 0x64 1],
         rx = sconst (Some [0x1f]), tx = sconst True\<rparr>)
   \<and> bl_double_ack 0x93
      \<lparr>trace = [], rx = Some [0x79] ## sconst (Some [0x1f]), tx = sconst True\<rparr>
     = (Inr [0x1f],
        \<lparr>trace = [WriteTo 0x64 [0x93, 0x6C], ReadFrom 0x64 1, ReadFrom 0x64 1],
         rx = sconst (Some [0x1f]), tx = sconst True\<rparr>)
   \<and> bl_double_ack 0x93
      \<lparr>trace = [], rx = Some [0x79] ## sconst (Some [0x76]), tx = sconst True\<rparr>
     = (Inr [0x76],
        \<lparr>trace = [WriteTo 0x64 [0x93, 0x6C], ReadFrom 0x64 1]
                  @ concat (replicate 100 [ReadFrom 0x64 1, SleepMs 20]),
         rx = sconst (Some [0x76]), tx = sconst True\<rparr>)
   \<and> bl_double_ack 0x93 \<lparr>trace = [], rx = sconst (Some [0x1f]), tx = sconst True\<rparr>
     = (Inl (ValueError (Text ''unknown command'')),
        \<lparr>trace = [WriteTo 0x64 [0x93, 0x6C], ReadFrom 0x64 1],
         rx = sconst (Some [0x1f]), tx = sconst True\<rparr>)"
proof -
  let ?cmd = "[WriteTo 0x64 [0x93, 0x6C], ReadFrom 0x64 1]"
  let ?a = "\<lparr>trace = [], rx = Some [0x79] ## Some [0x79] ## sconst (Some [0x1f]), tx = sconst True\<rparr>"
  let ?n = "\<lparr>trace = [], rx = Some [0x79] ## sconst (Some [0x1f]), tx = sconst True\<rparr>"
  let ?y = "\<lparr>trace = [], rx = Some [0x79] ## sconst (Some [0x76]), tx = sconst True\<rparr>"
  let ?u = "\<lparr>trace = [], rx = sconst (Some [0x1f]), tx = sconst True\<rparr>"
  note c = send_cmd_eq [of "0x93", simplified]
  have a1: "wait_done (after ?cmd ?a) = (Inr [0x79], after [ReadFrom 0x64 1] (after ?cmd ?a))"
    by (rule wait_done_immediate) (simp_all add: rx_after BL_BUSY_def)
  have a2: "wait_done (after [ReadFrom 0x64 1] (after ?cmd ?a))
              = (Inr [0x1f], after [ReadFrom 0x64 1] (after [ReadFrom 0x64 1] (after ?cmd ?a)))"
    by (rule wait_done_immediate) (simp_all add: rx_after BL_BUSY_def)
  have n1: "wait_done (after ?cmd ?n) = (Inr [0x1f], after [ReadFrom 0x64 1] (after ?cmd ?n))"
    by (rule wait_done_immediate) (simp_all add: rx_after BL_BUSY_def)
  have y1: "wait_done (after ?cmd ?y)
              = (Inr BL_BUSY,
                 after (concat (replicate 100 [ReadFrom BL_ADDR 1, SleepMs 20])) (after ?cmd ?y))"
    by (rule wait_done_all_busy)
      (simp add: rx_after stake_sconst BL_BUSY_def del: stake_siterate)
  have ra: "bl_double_ack 0x93 ?a
              = (Inr [0x1f], after [ReadFrom 0x64 1] (after [ReadFrom 0x64 1] (after ?cmd ?a)))"
    using bl_double_ack_second_poll [of "0x93" ?a "after ?cmd ?a" "[0x79]"
        "after [ReadFrom 0x64 1] (after ?cmd ?a)"] a1 a2
    by (simp add: c)
  have rn: "bl_double_ack 0x93 ?n = (Inr [0x1f], after [ReadFrom 0x64 1] (after ?cmd ?n))"
    using bl_double_ack_second_poll [of "0x93" ?n "after ?cmd ?n" "[0x1f]"
        "after [ReadFrom 0x64 1] (after ?cmd ?n)"] n1
    by (simp add: c)
  have ry: "bl_double_ack 0x93 ?y
              = (Inr BL_BUSY,
                 after (concat (replicate 100 [ReadFrom BL_ADDR 1, SleepMs 20])) (after ?cmd ?y))"
    using bl_double_ack_second_poll [of "0x93" ?y "after ?cmd ?y" "BL_BUSY"
        "after (concat (replicate 100 [ReadFrom BL_ADDR 1, SleepMs 20])) (after ?cmd ?y)"] y1
    by (simp add: c BL_BUSY_def)
  have ru: "bl_double_ack 0x93 ?u = (Inl (ValueError (Text ''unknown command'')), after ?cmd ?u)"
    using bl_double_ack_second_poll [of "0x93" ?u "after ?cmd ?u" _ _
        "ValueError (Text ''unknown command'')"]
    by (simp add: c status_error_def)
  show ?thesis
    unfolding ra rn ry ru
    by (simp add: after_def reads_replicate writes_replicate sdrop_sconst BL_BUSY_def BL_ADDR_def
        del: sdrop_siterate)
qed

section \<open>The address frame\<close>

lemma rest_never_bad_addr:
  "fst (bl_cmd_read_rest el arg2 nf b2) \<noteq> Inl (ValueError (Text ''bad addr''))"
  by (cases arg2)
    (auto simp add: bl_cmd_read_rest_def add_xor_check_eq io_defs bus_eqs py_bytes_def
      split: option.split arg.split sum.split prod.split)

lemma rest_appends:
  "\<exists>evs. trace (snd (bl_cmd_read_rest el arg2 nf b2)) = trace b2 @ evs"
  by (cases arg2)
    (auto simp add: bl_cmd_read_rest_def add_xor_check_eq io_defs bus_eqs trace_after py_bytes_def
      split: option.split arg.split sum.split prod.split)

lemma rest_nothing: "bl_cmd_read_rest 0 None nf b2 = (Inr None, b2)"
  by (simp add: bl_cmd_read_rest_def io_defs)

lemma bl_cmd_read_acked:
  assumes "send_cmd cmd b = (Inr (), b1)" "shd (tx b1)" "shd (rx b1) = Some [0x79]"
  shows "bl_cmd_read cmd el (Some a) arg2 nf b
           = bl_cmd_read_rest el arg2 nf (after [WriteTo 0x64 (addr_frame a), ReadFrom 0x64 1] b1)"
  using assms
  by (cases a)
    (simp_all add: bl_cmd_read_def bl_cmd_read_rest_def add_xor_check_eq addr_frame_def bindE_def
      lift_def ret_def bus_eqs BL_ADDR_def BL_ACK_def)

text \<open>
  C7. In \<open>bl_cmd_read\<close> with an address, once the command is acknowledged, the next
  call writes the address frame: for an integer (32-bit), exactly its four bytes, most
  significant first, followed by the XOR of those four bytes; otherwise the given byte
  sequence as it is. Then exactly one status byte is read. Unless it is ACK (0x79) the
  exchange ends there with \<open>ValueError('bad addr')\<close>: no argument frame is written
  and no payload is read after it. When it is ACK, \<open>bl_cmd_read\<close> does not raise
  \<open>ValueError('bad addr')\<close>: it goes on with the second argument and the payload
  from the bus as the address exchange left it, and with no second argument and no
  payload it returns normally. When the command itself fails, no address frame is sent.
\<close>

theorem bl_cmd_read_address_ack:
  "(addr_ok a \<and> send_cmd cmd b = (Inr (), b1) \<and> \<not> shd (tx b1) \<longrightarrow>
      bl_cmd_read cmd el (Some a) arg2 nf b
        = (Inl OSError, after [WriteTo 0x64 (addr_frame a)] b1))
   \<and> (addr_ok a \<and> send_cmd cmd b = (Inr (), b1) \<and> shd (tx b1)
        \<and> shd (rx b1) \<noteq> Some [0x79] \<longrightarrow>
      bl_cmd_read cmd el (Some a) arg2 nf b
        = (Inl (status_error (shd (rx b1)) ''bad addr''),
           after [WriteTo 0x64 (addr_frame a), ReadFrom 0x64 1] b1))
   \<and> (addr_ok a \<and> send_cmd cmd b = (Inr (), b1) \<and> shd (tx b1)
        \<and> shd (rx b1) = Some [0x79] \<longrightarrow>
      bl_cmd_read cmd el (Some a) arg2 nf b
        = bl_cmd_read_rest el arg2 nf
            (after [WriteTo 0x64 (addr_frame a), ReadFrom 0x64 1] b1)
      \<and> fst (bl_cmd_read cmd el (Some a) arg2 nf b) \<noteq> Inl (ValueError (Text ''bad addr''))
      \<and> (\<exists>evs. trace (snd (bl_cmd_read cmd el (Some a) arg2 nf b))
             = trace b1 @ WriteTo 0x64 (addr_frame a) # ReadFrom 0x64 1 # evs))
   \<and> (addr_ok a \<and> send_cmd cmd b = (Inr (), b1) \<and> shd (tx b1)
        \<and> shd (rx b1) = Some [0x79] \<longrightarrow>
      bl_cmd_read cmd 0 (Some a) None nf b
        = (Inr None, after [WriteTo 0x64 (addr_frame a), ReadFrom 0x64 1] b1))
   \<and> (send_cmd cmd b = (Inl e, b1) \<longrightarrow> bl_cmd_read cmd el (Some a) arg2 nf b = (Inl e, b1))
   \<and> addr_frame (IntArg n) = pack_be32 n @ [xor_sum (pack_be32 n)]
   \<and> length (pack_be32 n) = 4
   \<and> (0 \<le> n \<and> n < 2 ^ 32 \<longrightarrow> be_value (pack_be32 n) = n)
   \<and> addr_frame (BytesArg bs) = bs"
proof -
  let ?adr = "[WriteTo 0x64 (addr_frame a), ReadFrom 0x64 1]"
  have w: "bl_cmd_read cmd el (Some a) arg2 nf b
        = (Inl OSError, after [WriteTo 0x64 (addr_frame a)] b1)"
    if "send_cmd cmd b = (Inr (), b1)" "\<not> shd (tx b1)"
    using that
    by (cases a)
      (simp_all add: bl_cmd_read_def add_xor_check_eq addr_frame_def io_defs bus_eqs BL_ADDR_def)
  have r: "bl_cmd_read cmd el (Some a) arg2 nf b
        = (Inl (status_error (shd (rx b1)) ''bad addr''), after ?adr b1)"
    if "send_cmd cmd b = (Inr (), b1)" "shd (tx b1)" "shd (rx b1) \<noteq> Some [0x79]"
    using that
    by (cases a)
      (simp_all add: bl_cmd_read_def add_xor_check_eq addr_frame_def io_defs bus_eqs
        status_error_def BL_ADDR_def BL_ACK_def split: option.split)
  have k: "bl_cmd_read cmd el (Some a) arg2 nf b = bl_cmd_read_rest el arg2 nf (after ?adr b1)
      \<and> fst (bl_cmd_read cmd el (Some a) arg2 nf b) \<noteq> Inl (ValueError (Text ''bad addr''))
      \<and> (\<exists>evs. trace (snd (bl_cmd_read cmd el (Some a) arg2 nf b))
             = trace b1 @ WriteTo 0x64 (addr_frame a) # ReadFrom 0x64 1 # evs)"
    if "send_cmd cmd b = (Inr (), b1)" "shd (tx b1)" "shd (rx b1) = Some [0x79]"
  proof -
    have eq: "bl_cmd_read cmd el (Some a) arg2 nf b
                = bl_cmd_read_rest el arg2 nf (after ?adr b1)"
      using that by (rule bl_cmd_read_acked)
    obtain evs where
      "trace (snd (bl_cmd_read_rest el arg2 nf (after ?adr b1))) = trace (after ?adr b1) @ evs"
      using rest_appends by blast
    then have "trace (snd (bl_cmd_read cmd el (Some a) arg2 nf b))
                 = trace b1 @ WriteTo 0x64 (addr_frame a) # ReadFrom 0x64 1 # evs"
      by (simp add: eq trace_after)
    then show ?thesis
      using eq rest_never_bad_addr [of el arg2 nf "after ?adr b1"] by auto
  qed
  have z: "bl_cmd_read cmd 0 (Some a) None nf b = (Inr None, after ?adr b1)"
    if "send_cmd cmd b = (Inr (), b1)" "shd (tx b1)" "shd (rx b1) = Some [0x79]"
    using bl_cmd_read_acked [OF that, of 0 a None nf] by (simp add: rest_nothing)
  have s: "bl_cmd_read cmd el (Some a) arg2 nf b = (Inl e, b1)" if "send_cmd cmd b = (Inl e, b1)"
    using that by (simp add: bl_cmd_read_def bindE_def)
  have f: "addr_frame (IntArg n) = pack_be32 n @ [xor_sum (pack_be32 n)]"
    "addr_frame (BytesArg bs) = bs" "length (pack_be32 n) = 4"
    by (simp_all add: addr_frame_def pack_be32_def)
  show ?thesis
    using w r k z s f be_value_pack [of n] by blast
qed

theorem bl_cmd_read_address_ack_witness:
  "bl_cmd_read 0x11 16 (Some (IntArg 0x08000100)) (Some (IntArg 15)) True
      \<lparr>trace = [], rx = Some [0x79] ## sconst (Some [0x1f]), tx = sconst True\<rparr>
     = (Inl (ValueError (Text ''bad addr'')),
        \<lparr>trace = [WriteTo 0x64 [0x11, 0xEE], ReadFrom 0x64 1,
                  WriteTo 0x64 [0x08, 0x00, 0x01, 0x00, 0x09], ReadFrom 0x64 1],
         rx = sconst (Some [0x1f]), tx = sconst True\<rparr>)
   \<and> bl_cmd_read 0x21 0 (Some (BytesArg [1, 2, 3])) None False
      \<lparr>trace = [], rx = Some [0x79] ## sconst (Some [0x1f]), tx = sconst True\<rparr>
     = (Inl (ValueError (Text ''bad addr'')),
        \<lparr>trace = [WriteTo 0x64 [0x21, 0xDE], ReadFrom 0x64 1,
                  WriteTo 0x64 [1, 2, 3], ReadFrom 0x64 1],
         rx = sconst (Some [0x1f]), tx = sconst True\<rparr>)
   \<and> bl_cmd_read 0x21 0 (Some (IntArg 0x08000000)) None False
      \<lparr>trace = [], rx = sconst (Some [0x79]), tx = sconst True\<rparr>
     = (Inr None,
        \<lparr>trace = [WriteTo 0x64 [0x21, 0xDE], ReadFrom 0x64 1,
                  WriteTo 0x64 [0x08, 0x00, 0x00, 0x00, 0x08], ReadFrom 0x64 1],
         rx = sconst (Some [0x79]), tx = sconst True\<rparr>)
   \<and> bl_cmd_read 0x11 4 (Some (IntArg 0x08000100)) (Some (IntArg 3)) True
      \<lparr>trace = [],
        rx = Some [0x79] ## Some [0x79] ## Some [0x79] ## Some [1, 2, 3, 4] ## sconst None,
        tx = sconst True\<rparr>
     = (Inr (Some [1, 2, 3, 4]),
        \<lparr>trace = [WriteTo 0x64 [0x11, 0xEE], ReadFrom 0x64 1,
                  WriteTo 0x64 [0x08, 0x00, 0x01, 0x00, 0x09], ReadFrom 0x64 1,
                  WriteTo 0x64 [0x03, 0xFC], ReadFrom 0x64 1, ReadFrom 0x64 4],
         rx = sconst None, tx = sconst True\<rparr>)
   \<and> be_value (pack_be32 0x08000100) = 0x08000100"
proof -
  let ?b = "\<lparr>trace = [], rx = Some [0x79] ## sconst (Some [0x1f]), tx = sconst True\<rparr>"
  let ?g = "\<lparr>trace = [], rx = sconst (Some [0x79]), tx = sconst True\<rparr>"
  let ?d = "\<lparr>trace = [],
        rx = Some [0x79] ## Some [0x79] ## Some [0x79] ## Some [1, 2, 3, 4] ## sconst None,
        tx = sconst True\<rparr>"
  let ?c1 = "[WriteTo 0x64 [0x11, 0xEE], ReadFrom 0x64 1]"
  let ?c2 = "[WriteTo 0x64 [0x21, 0xDE], ReadFrom 0x64 1]"
  have p: "pack_be32 0x08000100 = [0x08, 0x00, 0x01, 0x00]"
    "pack_be32 0x08000000 = [0x08, 0x00, 0x00, 0x00]"
    by (simp_all add: pack_be32_def)
  have 1: "bl_cmd_read 0x11 16 (Some (IntArg 0x08000100)) (Some (IntArg 15)) True ?b
     = (Inl (ValueError (Text ''bad addr'')),
        after [WriteTo 0x64 [0x08, 0x00, 0x01, 0x00, 0x09], ReadFrom 0x64 1] (after ?c1 ?b))
     \<and> be_value (pack_be32 0x08000100) = 0x08000100"
    using bl_cmd_read_address_ack [where cmd = "0x11" and b = ?b and ?b1.0 = "after ?c1 ?b"
        and el = 16 and a = "IntArg 0x08000100" and ?arg2.0 = "Some (IntArg 15)" and nf = True
        and n = "0x08000100"]
    by (simp add: send_cmd_eq [of "0x11", simplified] rx_after tx_after status_error_def p
        xor_sum_def addr_ok_def addr_frame_def)
  have 2: "bl_cmd_read 0x21 0 (Some (BytesArg [1, 2, 3])) None False ?b
     = (Inl (ValueError (Text ''bad addr'')),
        after [WriteTo 0x64 [1, 2, 3], ReadFrom 0x64 1] (after ?c2 ?b))"
    using bl_cmd_read_address_ack [where cmd = "0x21" and b = ?b and ?b1.0 = "after ?c2 ?b"
        and el = 0 and a = "BytesArg [1, 2, 3]" and ?arg2.0 = None and nf = False
        and bs = "[1, 2, 3]"]
    by (simp add: send_cmd_eq [of "0x21", simplified] rx_after tx_after status_error_def
        addr_ok_def addr_frame_def)
  have 3: "bl_cmd_read 0x21 0 (Some (IntArg 0x08000000)) None False ?g
     = (Inr None,
        after [WriteTo 0x64 [0x08, 0x00, 0x00, 0x00, 0x08], ReadFrom 0x64 1] (after ?c2 ?g))"
    using bl_cmd_read_address_ack [where cmd = "0x21" and b = ?g and ?b1.0 = "after ?c2 ?g"
        and el = 0 and a = "IntArg 0x08000000" and ?arg2.0 = None and nf = False
        and n = 0]
    by (simp add: send_cmd_eq [of "0x21", simplified] rx_after tx_after p xor_sum_def
        addr_ok_def addr_frame_def rest_nothing)
  have 4: "bl_cmd_read 0x11 4 (Some (IntArg 0x08000100)) (Some (IntArg 3)) True ?d
     = bl_cmd_read_rest 4 (Some (IntArg 3)) True
         (after [WriteTo 0x64 [0x08, 0x00, 0x01, 0x00, 0x09], ReadFrom 0x64 1] (after ?c1 ?d))"
    using bl_cmd_read_address_ack [where cmd = "0x11" and b = ?d and ?b1.0 = "after ?c1 ?d"
        and el = 4 and a = "IntArg 0x08000100" and ?arg2.0 = "Some (IntArg 3)" and nf = True
        and n = 0]
    by (simp add: send_cmd_eq [of "0x11", simplified] rx_after tx_after p xor_sum_def
        addr_ok_def addr_frame_def)
  have 5: "bl_cmd_read_rest 4 (Some (IntArg 3)) True
         (after [WriteTo 0x64 [0x08, 0x00, 0x01, 0x00, 0x09], ReadFrom 0x64 1] (after ?c1 ?d))
     = (Inr (Some [1, 2, 3, 4]),
        after [WriteTo 0x64 [0x03, 0xFC], ReadFrom 0x64 1, ReadFrom 0x64 4]
          (after [WriteTo 0x64 [0x08, 0x00, 0x01, 0x00, 0x09], ReadFrom 0x64 1] (after ?c1 ?d)))"
    by (simp add: bl_cmd_read_rest_def py_bytes_def io_defs bus_eqs BL_ADDR_def BL_ACK_def)
  show ?thesis
    using 1 2 3 4 5 by (simp add: after_def)
qed

end
